theory Spec2Isabelle
  imports Complex_Main "HOL-Library.Multiset"
begin

section \<open>Errors\<close>

text \<open>
  Every exception the editor can leave with. The first five are the
  \<^verbatim>\<open>std::runtime_error\<close>s thrown by \<^verbatim>\<open>motion_editor.cpp\<close> itself (with the text
  appended to the message); the other five are the exceptions of the YAML library
  that pass through the editor uncaught.
\<close>

datatype error =
    TopLevelNotSequence
  | FrameMissingDxl string
  | StepNotFound string
  | UnknownJointName string
  | CannotOpenFile string
  | BadFile
  | ParserException
  | BadConversion
  | InvalidNode
  | BadSubscript

section \<open>YAML nodes\<close>

text \<open>
  A \<^verbatim>\<open>YAML::Node\<close> that came out of a parse: null, a scalar (its text), a sequence
  or a mapping. A mapping is the list of its entries in document order; keys are
  nodes themselves and may repeat.
\<close>

datatype yaml =
    YNull
  | YScalar string
  | YSeq "yaml list"
  | YMap "(yaml \<times> yaml) list"

fun IsMap :: "yaml \<Rightarrow> bool" where
  "IsMap (YMap kvs) = True"
| "IsMap _ = False"

fun IsSequence :: "yaml \<Rightarrow> bool" where
  "IsSequence (YSeq ys) = True"
| "IsSequence _ = False"

text \<open>
  The const \<^verbatim>\<open>operator[]\<close> with a string key. On a mapping it is the value of the
  first entry whose key is a scalar of that text, and an undefined node (\<open>None\<close>)
  when there is none; an entry whose value is null is defined. On null and on a
  sequence a string key finds nothing; on a scalar the library throws.
\<close>

fun find_key :: "(yaml \<times> yaml) list \<Rightarrow> string \<Rightarrow> yaml option" where
  "find_key [] key = None"
| "find_key ((k, v) # kvs) key = (if k = YScalar key then Some v else find_key kvs key)"

fun subscript :: "yaml \<Rightarrow> string \<Rightarrow> error + yaml option" where
  "subscript (YMap kvs) key = Inr (find_key kvs key)"
| "subscript (YScalar s) key = Inl BadSubscript"
| "subscript YNull key = Inr None"
| "subscript (YSeq ys) key = Inr None"

section \<open>The libraries the editor is built on\<close>

text \<open>
  What the source takes from yaml-cpp and from the C++ standard library, and does
  not itself determine:
  \<^item> \<open>as_int\<close>, \<open>as_double\<close>, \<open>as_bool\<close>, \<open>as_string\<close>: \<^verbatim>\<open>Node::as<T>()\<close> on a defined
    node, \<open>None\<close> when the conversion throws;
  \<^item> \<open>int_text\<close>, \<open>double_text\<close>, \<open>bool_text\<close>: the scalar text that assigning a
    value of that type to a node stores;
  \<^item> \<open>dump\<close>: the emitter (\<^verbatim>\<open>stream << node\<close>); \<open>Load\<close>: \<^verbatim>\<open>YAML::Load\<close>, \<open>None\<close> when
    the parser throws;
  \<^item> \<open>grow\<close>: the capacity a full \<^verbatim>\<open>std::vector\<close> of the given capacity reallocates to;
  \<^item> \<open>umap_order\<close>: the order in which a \<^verbatim>\<open>std::unordered_map\<close> iterates over the
    entries that were inserted into it in the given order.
  Positions are \<^verbatim>\<open>double\<close>s that the editor only stores and copies; they are
  modelled as reals.
\<close>

record lib =
  as_int :: "yaml \<Rightarrow> int option"
  as_double :: "yaml \<Rightarrow> real option"
  as_bool :: "yaml \<Rightarrow> bool option"
  as_string :: "yaml \<Rightarrow> string option"
  int_text :: "int \<Rightarrow> string"
  double_text :: "real \<Rightarrow> string"
  bool_text :: "bool \<Rightarrow> string"
  dump :: "yaml \<Rightarrow> string"
  Load :: "string \<Rightarrow> yaml option"
  grow :: "nat \<Rightarrow> nat"
  umap_order :: "(string \<times> real) list \<Rightarrow> (string \<times> real) list"

text \<open>
  A \<^verbatim>\<open>std::vector\<close>: its elements and the capacity of its buffer. \<^verbatim>\<open>push_back\<close>
  writes into the buffer while there is room and otherwise moves the elements to a
  new buffer, which invalidates every pointer to an element.
\<close>

record 'a vector =
  elems :: "'a list"
  capacity :: nat

definition empty_vector :: "'a vector" where
  "empty_vector = \<lparr>elems = [], capacity = 0\<rparr>"

definition reallocates :: "'a vector \<Rightarrow> bool" where
  "reallocates v = (\<not> length (elems v) < capacity v)"

definition push_back :: "lib \<Rightarrow> 'a vector \<Rightarrow> 'a \<Rightarrow> 'a vector" where
  "push_back L v x =
     (if reallocates v then \<lparr>elems = elems v @ [x], capacity = grow L (capacity v)\<rparr>
      else v\<lparr>elems := elems v @ [x]\<rparr>)"

section \<open>The data model of motion_editor.hpp\<close>

text \<open>
  The member \<^verbatim>\<open>id\<close> of \<^verbatim>\<open>DxlValue\<close> is \<open>id_v\<close> here (\<open>id\<close> is the identity function of
  HOL), and the members \<^verbatim>\<open>meta_blobs_\<close>, \<^verbatim>\<open>frames_\<close> and \<^verbatim>\<open>joint_to_id_\<close> of the editor
  are written without the trailing underscore. The integers of a frame are only
  stored, compared and printed, never computed with.
\<close>

record DxlValue =
  id_v :: int
  position :: real

record Frame =
  time :: int
  delay :: int
  repeat :: int
  name :: string
  selected :: bool
  dxl :: "DxlValue vector"

text \<open>
  \<^verbatim>\<open>JointPosMap\<close> is an unordered map from joint name to radians. It is given as the
  list of its entries in the order its iteration visits them (keys distinct);
  \<^verbatim>\<open>find\<close> is \<open>map_of\<close>.
\<close>

type_synonym JointPosMap = "(string \<times> real) list"

record MetaBlob =
  rawYaml :: string

record MotionEditor =
  meta_blobs :: "MetaBlob list"
  frames :: "Frame list"
  joint_to_id :: "string \<rightharpoonup> int"

text \<open>The default constructor and the one taking a mapping.\<close>

definition default_joint_to_id :: "string \<rightharpoonup> int" where
  "default_joint_to_id = map_of
     [(''rotate_torso'', 22), (''rotate_0'', 0), (''rotate_1'', 1),
      (''rotate_2'', 2), (''rotate_3'', 3), (''rotate_5'', 5)]"

definition new_MotionEditor_with :: "(string \<rightharpoonup> int) \<Rightarrow> MotionEditor" where
  "new_MotionEditor_with m = \<lparr>meta_blobs = [], frames = [], joint_to_id = m\<rparr>"

definition new_MotionEditor :: MotionEditor where
  "new_MotionEditor = new_MotionEditor_with default_joint_to_id"

section \<open>Lookup\<close>

text \<open>
  \<^verbatim>\<open>findFrameIndexByName\<close>: the index of the first frame of that name, or -1.
  \<open>find_from i fs\<close> is the loop from index \<open>i\<close> on, \<open>fs\<close> the frames not yet visited.
\<close>

fun find_from :: "int \<Rightarrow> Frame list \<Rightarrow> string \<Rightarrow> int" where
  "find_from i [] step_name = -1"
| "find_from i (f # fs) step_name =
     (if name f = step_name then i else find_from (i + 1) fs step_name)"

definition findFrameIndexByName :: "MotionEditor \<Rightarrow> string \<Rightarrow> int" where
  "findFrameIndexByName s step_name = find_from 0 (frames s) step_name"

definition listStepNames :: "MotionEditor \<Rightarrow> string list" where
  "listStepNames s = map name (frames s)"

text \<open>
  \<^verbatim>\<open>getFrame\<close> returns a copy of the frame: the copy of its vector has the same
  elements in a buffer of its own, allocated to their number.
\<close>

definition copy_vector :: "'a vector \<Rightarrow> 'a vector" where
  "copy_vector v = \<lparr>elems = elems v, capacity = length (elems v)\<rparr>"

definition getFrame :: "MotionEditor \<Rightarrow> string \<Rightarrow> Frame option" where
  "getFrame s step_name =
     (let idx = findFrameIndexByName s step_name
      in if idx < 0 then None
         else Some ((frames s ! nat idx)\<lparr>dxl := copy_vector (dxl (frames s ! nat idx))\<rparr>))"

section \<open>Editing\<close>

text \<open>
  \<^verbatim>\<open>editJoints\<close> first builds \<^verbatim>\<open>id2dxl\<close>, a map from joint id to a pointer to the
  entry of the frame's \<^verbatim>\<open>dxl\<close> vector. A pointer is the buffer it points into
  (buffers of this call are numbered from 0, a reallocation moves to the next
  number) and the index of the entry there.
\<close>

type_synonym ptr = "nat \<times> nat"

fun index_dxl :: "nat \<Rightarrow> DxlValue list \<Rightarrow> (int \<rightharpoonup> ptr) \<Rightarrow> (int \<rightharpoonup> ptr)" where
  "index_dxl i [] m = m"
| "index_dxl i (dv # dvs) m = index_dxl (Suc i) dvs (m(id_v dv \<mapsto> (0, i)))"

text \<open>
  The loop over the updates. \<open>v\<close> is the frame's vector, \<open>b\<close> the number of its
  current buffer, \<open>m\<close> is \<^verbatim>\<open>id2dxl\<close>. An id that \<^verbatim>\<open>id2dxl\<close> does not have is appended
  with \<^verbatim>\<open>push_back\<close>, and only its own pointer is stored. An id that it has is written
  through the stored pointer. When the pointer is into the current buffer, that is a
  write into the vector. When a reallocation has come between, the pointer is into
  a buffer the vector has left: the write does not reach the frame, nothing is
  thrown, and the loop goes on with the next pair. Such a write is undefined in C++;
  the loop records it in \<open>lost\<close> (the id and the position that were to be written),
  which the code itself has no trace of. The result is the exception that ended the
  loop, if any, the vector as the loop left it, and the writes that were lost.
\<close>

fun update_loop ::
  "lib \<Rightarrow> (string \<rightharpoonup> int) \<Rightarrow> bool \<Rightarrow> JointPosMap \<Rightarrow> DxlValue vector \<Rightarrow> nat \<Rightarrow>
   (int \<rightharpoonup> ptr) \<Rightarrow> (int \<times> real) list \<Rightarrow>
   error option \<times> DxlValue vector \<times> (int \<times> real) list" where
  "update_loop L j2i strict [] v b m lost = (None, v, lost)"
| "update_loop L j2i strict ((jname, qrad) # rest) v b m lost =
     (case j2i jname of
        None \<Rightarrow>
          if strict then (Some (UnknownJointName jname), v, lost)
          else update_loop L j2i strict rest v b m lost
      | Some i \<Rightarrow>
          (case m i of
             None \<Rightarrow>
               (let b' = (if reallocates v then Suc b else b);
                    v' = push_back L v \<lparr>id_v = i, position = qrad\<rparr>
                in update_loop L j2i strict rest v' b'
                     (m(i \<mapsto> (b', length (elems v)))) lost)
           | Some (pb, k) \<Rightarrow>
               if pb = b then
                 update_loop L j2i strict rest
                   (v\<lparr>elems := (elems v)[k := (elems v ! k)\<lparr>position := qrad\<rparr>]\<rparr>) b m lost
               else update_loop L j2i strict rest v b m (lost @ [(i, qrad)])))"

definition editJoints ::
  "lib \<Rightarrow> MotionEditor \<Rightarrow> string \<Rightarrow> JointPosMap \<Rightarrow> bool \<Rightarrow> error option \<times> MotionEditor" where
  "editJoints L s step_name joint_positions_rad strict =
     (let idx = findFrameIndexByName s step_name in
      if idx < 0 then (Some (StepNotFound step_name), s)
      else
        (let f = frames s ! nat idx;
             id2dxl = index_dxl 0 (elems (dxl f)) Map.empty;
             (err, v, lost) =
               update_loop L (joint_to_id s) strict joint_positions_rad (dxl f) 0 id2dxl []
         in (err, s\<lparr>frames := (frames s)[nat idx := f\<lparr>dxl := v\<rparr>]\<rparr>)))"

text \<open>
  The writes of a call of \<open>editJoints\<close> that went through an invalidated pointer, in
  the order of the loop: the same run of the loop, read for what it lost.
\<close>

definition lost_writes ::
  "lib \<Rightarrow> MotionEditor \<Rightarrow> string \<Rightarrow> JointPosMap \<Rightarrow> bool \<Rightarrow> (int \<times> real) list" where
  "lost_writes L s step_name joint_positions_rad strict =
     (let idx = findFrameIndexByName s step_name in
      if idx < 0 then []
      else
        (let f = frames s ! nat idx;
             id2dxl = index_dxl 0 (elems (dxl f)) Map.empty;
             (err, v, lost) =
               update_loop L (joint_to_id s) strict joint_positions_rad (dxl f) 0 id2dxl []
         in lost))"

text \<open>
  \<^verbatim>\<open>editFourArmJoints\<close>. \<open>umap_assign\<close> is \<^verbatim>\<open>sub[j] = q\<close> on the entries of \<^verbatim>\<open>sub\<close> in
  insertion order; \<open>put\<close> is the lambda of the source. The loop of \<open>editJoints\<close> then
  visits \<^verbatim>\<open>sub\<close> in the order the unordered map iterates.
\<close>

definition umap_assign :: "JointPosMap \<Rightarrow> string \<Rightarrow> real \<Rightarrow> JointPosMap" where
  "umap_assign sub j q =
     (if j \<in> fst ` set sub then map (\<lambda>(k, x). if k = j then (k, q) else (k, x)) sub
      else sub @ [(j, q)])"

definition put :: "JointPosMap \<Rightarrow> string \<Rightarrow> JointPosMap \<Rightarrow> JointPosMap" where
  "put joint_positions_rad j sub =
     (case map_of joint_positions_rad j of None \<Rightarrow> sub | Some q \<Rightarrow> umap_assign sub j q)"

definition four_arm_sub :: "JointPosMap \<Rightarrow> JointPosMap" where
  "four_arm_sub jp =
     put jp ''rotate_5'' (put jp ''rotate_3'' (put jp ''rotate_2'' (put jp ''rotate_1''
       (put jp ''rotate_0'' (put jp ''rotate_torso'' [])))))"

definition editFourArmJoints ::
  "lib \<Rightarrow> MotionEditor \<Rightarrow> string \<Rightarrow> JointPosMap \<Rightarrow> error option \<times> MotionEditor" where
  "editFourArmJoints L s step_name joint_positions_rad =
     (let sub = four_arm_sub joint_positions_rad in
      if sub = [] then (None, s)
      else editJoints L s step_name (umap_order L sub) False)"

section \<open>Parsing a frame\<close>

text \<open>
  \<^verbatim>\<open>if (n[key]) x = n[key].as<T>()\<close>: the default when the key is absent, the
  converted value when it is there, the library's exception when it does not
  convert.
\<close>

definition optional_field :: "(yaml \<Rightarrow> 'a option) \<Rightarrow> yaml \<Rightarrow> string \<Rightarrow> 'a \<Rightarrow> error + 'a" where
  "optional_field conv n key dflt =
     (case subscript n key of
        Inl e \<Rightarrow> Inl e
      | Inr None \<Rightarrow> Inr dflt
      | Inr (Some v) \<Rightarrow> (case conv v of None \<Rightarrow> Inl BadConversion | Some x \<Rightarrow> Inr x))"

text \<open>\<^verbatim>\<open>elem[key].as<T>()\<close> with no test before it: an absent key throws as well.\<close>

definition required_field :: "(yaml \<Rightarrow> 'a option) \<Rightarrow> yaml \<Rightarrow> string \<Rightarrow> error + 'a" where
  "required_field conv n key =
     (case subscript n key of
        Inl e \<Rightarrow> Inl e
      | Inr None \<Rightarrow> Inl InvalidNode
      | Inr (Some v) \<Rightarrow> (case conv v of None \<Rightarrow> Inl BadConversion | Some x \<Rightarrow> Inr x))"

text \<open>The loop over the elements of \<^verbatim>\<open>n["dxl"]\<close>, \<open>v\<close> being \<^verbatim>\<open>f.dxl\<close> so far.\<close>

fun parse_dxl :: "lib \<Rightarrow> yaml list \<Rightarrow> DxlValue vector \<Rightarrow> error + DxlValue vector" where
  "parse_dxl L [] v = Inr v"
| "parse_dxl L (elem # rest) v =
     (if \<not> IsMap elem then parse_dxl L rest v
      else
        (case required_field (as_int L) elem ''id'' of
           Inl e \<Rightarrow> Inl e
         | Inr i \<Rightarrow>
             (case required_field (as_double L) elem ''position'' of
                Inl e \<Rightarrow> Inl e
              | Inr p \<Rightarrow> parse_dxl L rest (push_back L v \<lparr>id_v = i, position = p\<rparr>))))"

definition parseFrameFromNode :: "lib \<Rightarrow> yaml \<Rightarrow> error + Frame" where
  "parseFrameFromNode L n =
     (case optional_field (as_int L) n ''time'' 0 of
        Inl e \<Rightarrow> Inl e
      | Inr t \<Rightarrow>
     (case optional_field (as_int L) n ''delay'' 0 of
        Inl e \<Rightarrow> Inl e
      | Inr d \<Rightarrow>
     (case optional_field (as_int L) n ''repeat'' 0 of
        Inl e \<Rightarrow> Inl e
      | Inr r \<Rightarrow>
     (case optional_field (as_string L) n ''name'' [] of
        Inl e \<Rightarrow> Inl e
      | Inr nm \<Rightarrow>
     (case optional_field (as_bool L) n ''selected'' False of
        Inl e \<Rightarrow> Inl e
      | Inr sel \<Rightarrow>
     (case subscript n ''dxl'' of
        Inl e \<Rightarrow> Inl e
      | Inr (Some (YSeq es)) \<Rightarrow>
          (case parse_dxl L es empty_vector of
             Inl e \<Rightarrow> Inl e
           | Inr v \<Rightarrow>
               Inr \<lparr>time = t, delay = d, repeat = r, name = nm, selected = sel, dxl = v\<rparr>)
      | Inr _ \<Rightarrow> Inl (FrameMissingDxl nm)))))))"

section \<open>Loading\<close>

definition hasKey :: "yaml \<Rightarrow> string \<Rightarrow> bool" where
  "hasKey n key =
     (IsMap n \<and> (case subscript n key of Inr (Some v) \<Rightarrow> True | _ \<Rightarrow> False))"

definition appearsFrame :: "yaml \<Rightarrow> bool" where
  "appearsFrame item = (hasKey item ''dxl'' \<and> hasKey item ''time'' \<and> hasKey item ''name'')"

text \<open>
  The files the editor reads and writes: the text of each file that can be read,
  and whether a path can be opened for writing.
\<close>

record filesys =
  content :: "string \<rightharpoonup> string"
  can_write :: "string \<Rightarrow> bool"

definition LoadFile :: "lib \<Rightarrow> filesys \<Rightarrow> string \<Rightarrow> error + yaml" where
  "LoadFile L fsys path =
     (case content fsys path of
        None \<Rightarrow> Inl BadFile
      | Some str \<Rightarrow> (case Load L str of None \<Rightarrow> Inl ParserException | Some doc \<Rightarrow> Inr doc))"

text \<open>
  The loop over the top-level entries. It appends to the editor's own vectors, so
  an exception leaves there what the entries before the failing one put in.
\<close>

fun load_items :: "lib \<Rightarrow> yaml list \<Rightarrow> MotionEditor \<Rightarrow> error option \<times> MotionEditor" where
  "load_items L [] s = (None, s)"
| "load_items L (item # items) s =
     (if appearsFrame item then
        (case parseFrameFromNode L item of
           Inl e \<Rightarrow> (Some e, s)
         | Inr f \<Rightarrow> load_items L items (s\<lparr>frames := frames s @ [f]\<rparr>))
      else load_items L items (s\<lparr>meta_blobs := meta_blobs s @ [\<lparr>rawYaml = dump L item\<rparr>]\<rparr>))"

definition loadFromFile ::
  "lib \<Rightarrow> filesys \<Rightarrow> MotionEditor \<Rightarrow> string \<Rightarrow> error option \<times> MotionEditor" where
  "loadFromFile L fsys s path =
     (let s0 = s\<lparr>meta_blobs := [], frames := []\<rparr> in
      case LoadFile L fsys path of
        Inl e \<Rightarrow> (Some e, s0)
      | Inr doc \<Rightarrow>
          (case doc of
             YSeq items \<Rightarrow> load_items L items s0
           | _ \<Rightarrow> (Some TopLevelNotSequence, s0)))"

section \<open>Saving\<close>

text \<open>The three loops of \<^verbatim>\<open>buildYamlFromAll\<close>, each with the sequence built so far.\<close>

fun push_metas :: "lib \<Rightarrow> MetaBlob list \<Rightarrow> yaml list \<Rightarrow> error + yaml list" where
  "push_metas L [] out = Inr out"
| "push_metas L (mb # mbs) out =
     (case Load L (rawYaml mb) of
        None \<Rightarrow> Inl ParserException
      | Some m \<Rightarrow> push_metas L mbs (out @ [m]))"

fun push_dxl :: "lib \<Rightarrow> DxlValue list \<Rightarrow> yaml list \<Rightarrow> yaml list" where
  "push_dxl L [] dxl_node = dxl_node"
| "push_dxl L (dv # dvs) dxl_node =
     push_dxl L dvs
       (dxl_node @
        [YMap [(YScalar ''id'', YScalar (int_text L (id_v dv))),
               (YScalar ''position'', YScalar (double_text L (position dv)))]])"

fun push_frames :: "lib \<Rightarrow> Frame list \<Rightarrow> yaml list \<Rightarrow> yaml list" where
  "push_frames L [] out = out"
| "push_frames L (f # fs) out =
     push_frames L fs
       (out @
        [YMap [(YScalar ''time'', YScalar (int_text L (time f))),
               (YScalar ''delay'', YScalar (int_text L (delay f))),
               (YScalar ''repeat'', YScalar (int_text L (repeat f))),
               (YScalar ''name'', YScalar (name f)),
               (YScalar ''selected'', YScalar (bool_text L (selected f))),
               (YScalar ''dxl'', YSeq (push_dxl L (elems (dxl f)) []))]])"

definition buildYamlFromAll :: "lib \<Rightarrow> MetaBlob list \<Rightarrow> Frame list \<Rightarrow> error + yaml" where
  "buildYamlFromAll L metas fs =
     (case push_metas L metas [] of
        Inl e \<Rightarrow> Inl e
      | Inr out \<Rightarrow> Inr (YSeq (push_frames L fs out)))"

definition saveToFile :: "lib \<Rightarrow> filesys \<Rightarrow> MotionEditor \<Rightarrow> string \<Rightarrow> error + filesys" where
  "saveToFile L fsys s path =
     (case buildYamlFromAll L (meta_blobs s) (frames s) of
        Inl e \<Rightarrow> Inl e
      | Inr out \<Rightarrow>
          if \<not> can_write fsys path then Inl (CannotOpenFile path)
          else Inr (fsys\<lparr>content := (content fsys)(path \<mapsto> dump L out)\<rparr>))"

section \<open>A library instance and example documents\<close>

text \<open>
  A small instance of the library for running the editor on examples: scalars
  convert by table, documents are emitted and parsed by table, a full vector
  doubles its capacity (from 0 to 1), and a map iterates in insertion order.
\<close>

definition text_of :: "(string \<times> 'a) list \<Rightarrow> 'a \<Rightarrow> string" where
  "text_of tbl x = (case find (\<lambda>(t, y). y = x) tbl of Some (t, y) \<Rightarrow> t | None \<Rightarrow> ''?'')"

definition demo_ints :: "(string \<times> int) list" where
  "demo_ints = [(''0'', 0), (''1'', 1), (''2'', 2), (''5'', 5), (''100'', 100)]"

definition demo_doubles :: "(string \<times> real) list" where
  "demo_doubles = [(''0'', 0), (''0.25'', 1 / 4), (''0.5'', 1 / 2), (''1.5'', 3 / 2)]"

definition demo_bools :: "(string \<times> bool) list" where
  "demo_bools = [(''true'', True), (''false'', False)]"

definition scalar_by :: "(string \<times> 'a) list \<Rightarrow> yaml \<Rightarrow> 'a option" where
  "scalar_by tbl y = (case y of YScalar t \<Rightarrow> map_of tbl t | _ \<Rightarrow> None)"

definition demo_as_string :: "yaml \<Rightarrow> string option" where
  "demo_as_string y = (case y of YScalar t \<Rightarrow> Some t | YNull \<Rightarrow> Some ''null'' | _ \<Rightarrow> None)"

definition dxl_entry :: "string \<Rightarrow> string \<Rightarrow> yaml" where
  "dxl_entry i p = YMap [(YScalar ''id'', YScalar i), (YScalar ''position'', YScalar p)]"

definition frame_entries :: "string \<Rightarrow> yaml \<Rightarrow> (yaml \<times> yaml) list" where
  "frame_entries nm d =
     [(YScalar ''time'', YScalar ''100''), (YScalar ''delay'', YScalar ''0''),
      (YScalar ''repeat'', YScalar ''1''), (YScalar ''name'', YScalar nm),
      (YScalar ''selected'', YScalar ''false''), (YScalar ''dxl'', d)]"

definition frame_node :: "string \<Rightarrow> yaml \<Rightarrow> yaml" where
  "frame_node nm d = YMap (frame_entries nm d)"

text \<open>A mapping with \<open>time\<close> and \<open>name\<close> but no \<open>dxl\<close>.\<close>

definition nodxl_node :: yaml where
  "nodxl_node = YMap [(YScalar ''time'', YScalar ''5''), (YScalar ''name'', YScalar ''nodxl'')]"

text \<open>Two entries that are not frames, then a frame \<open>f1\<close> with one joint.\<close>

definition motion_doc :: yaml where
  "motion_doc =
     YSeq [YScalar ''meta'', nodxl_node, frame_node ''f1'' (YSeq [dxl_entry ''0'' ''0.5''])]"

text \<open>A frame \<open>f2\<close> with the joint id 0 twice.\<close>

definition twice_doc :: yaml where
  "twice_doc = YSeq [frame_node ''f2'' (YSeq [dxl_entry ''0'' ''0.25'', dxl_entry ''0'' ''0.5''])]"

text \<open>An entry that is not a frame, then a frame candidate whose \<open>dxl\<close> is a scalar.\<close>

definition broken_doc :: yaml where
  "broken_doc = YSeq [YScalar ''meta'', frame_node ''bad'' (YScalar ''5'')]"

definition demo_docs :: "(string \<times> yaml) list" where
  "demo_docs =
     [(''meta'', YScalar ''meta''),
      (''{time: 5, name: nodxl}'', nodxl_node),
      (''<motion>'', motion_doc),
      (''<twice>'', twice_doc),
      (''<broken>'', broken_doc)]"

definition demo_lib :: lib where
  "demo_lib =
     \<lparr>as_int = scalar_by demo_ints,
      as_double = scalar_by demo_doubles,
      as_bool = scalar_by demo_bools,
      as_string = demo_as_string,
      int_text = text_of demo_ints,
      double_text = text_of demo_doubles,
      bool_text = text_of demo_bools,
      dump = text_of demo_docs,
      Load = map_of demo_docs,
      grow = (\<lambda>c. max 1 (2 * c)),
      umap_order = (\<lambda>xs. xs)\<rparr>"

definition demo_files :: filesys where
  "demo_files =
     \<lparr>content = map_of [(''motion.yaml'', ''<motion>''), (''twice.yaml'', ''<twice>''),
                        (''broken.yaml'', ''<broken>''), (''scalar.yaml'', ''meta'')],
      can_write = (\<lambda>path. True)\<rparr>"

text \<open>The frame \<open>f1\<close> of \<open>motion_doc\<close> as the editor holds it, and an editor holding it.\<close>

definition frame_f1 :: Frame where
  "frame_f1 =
     \<lparr>time = 100, delay = 0, repeat = 1, name = ''f1'', selected = False,
      dxl = \<lparr>elems = [\<lparr>id_v = 0, position = 1 / 2\<rparr>], capacity = 1\<rparr>\<rparr>"

definition motion_blobs :: "MetaBlob list" where
  "motion_blobs = [\<lparr>rawYaml = ''meta''\<rparr>, \<lparr>rawYaml = ''{time: 5, name: nodxl}''\<rparr>]"

definition motion_editor :: MotionEditor where
  "motion_editor = new_MotionEditor\<lparr>meta_blobs := motion_blobs, frames := [frame_f1]\<rparr>"

section \<open>The specification's notions\<close>

text \<open>
  The shape of a frame entry in the specification's words: a mapping that contains
  all three keys \<open>dxl\<close> (the joints), \<open>time\<close> and \<open>name\<close>, whatever their values.
\<close>

definition is_frame_shape :: "yaml \<Rightarrow> bool" where
  "is_frame_shape item =
     (case item of
        YMap kvs \<Rightarrow>
          YScalar ''dxl'' \<in> fst ` set kvs \<and> YScalar ''time'' \<in> fst ` set kvs \<and>
          YScalar ''name'' \<in> fst ` set kvs
      | _ \<Rightarrow> False)"

text \<open>The blob that stands for an entry: the emitter's text of the entry.\<close>

definition blob_of :: "lib \<Rightarrow> yaml \<Rightarrow> MetaBlob" where
  "blob_of L item = \<lparr>rawYaml = dump L item\<rparr>"





text \<open>
  A frame as the specification says it is written: a mapping with the six fields
  \<open>time\<close>, \<open>delay\<close>, \<open>repeat\<close>, \<open>name\<close>, \<open>selected\<close> and the joints (\<open>dxl\<close>) in this
  order, the joints a sequence of mappings with \<open>id\<close> and \<open>position\<close>.
\<close>

definition emitted_joint :: "lib \<Rightarrow> DxlValue \<Rightarrow> yaml" where
  "emitted_joint L dv =
     YMap [(YScalar ''id'', YScalar (int_text L (id_v dv))),
           (YScalar ''position'', YScalar (double_text L (position dv)))]"

definition emitted_frame :: "lib \<Rightarrow> Frame \<Rightarrow> yaml" where
  "emitted_frame L f =
     YMap [(YScalar ''time'', YScalar (int_text L (time f))),
           (YScalar ''delay'', YScalar (int_text L (delay f))),
           (YScalar ''repeat'', YScalar (int_text L (repeat f))),
           (YScalar ''name'', YScalar (name f)),
           (YScalar ''selected'', YScalar (bool_text L (selected f))),
           (YScalar ''dxl'', YSeq (map (emitted_joint L) (elems (dxl f))))]"

text \<open>
  The field values of a frame and its joints in order, without the capacity of the
  vector that holds them.
\<close>

definition frame_fields :: "Frame \<Rightarrow> int \<times> int \<times> int \<times> string \<times> bool \<times> (int \<times> real) list" where
  "frame_fields f =
     (time f, delay f, repeat f, name f, selected f,
      map (\<lambda>dv. (id_v dv, position dv)) (elems (dxl f)))"

text \<open>
  The library reads back the scalars it writes for the values of this frame: what
  the round trip of a frame through a file needs from yaml-cpp.
\<close>

definition roundtrips :: "lib \<Rightarrow> Frame \<Rightarrow> bool" where
  "roundtrips L f =
     (as_int L (YScalar (int_text L (time f))) = Some (time f) \<and>
      as_int L (YScalar (int_text L (delay f))) = Some (delay f) \<and>
      as_int L (YScalar (int_text L (repeat f))) = Some (repeat f) \<and>
      as_string L (YScalar (name f)) = Some (name f) \<and>
      as_bool L (YScalar (bool_text L (selected f))) = Some (selected f) \<and>
      (\<forall>dv\<in>set (elems (dxl f)).
         as_int L (YScalar (int_text L (id_v dv))) = Some (id_v dv) \<and>
         as_double L (YScalar (double_text L (position dv))) = Some (position dv)))"

text \<open>
  The six joint names \<open>editFourArmJoints\<close> lets through, and an updates map filtered
  down to them, in the specification's words.
\<close>

definition whitelist :: "string list" where
  "whitelist =
     [''rotate_torso'', ''rotate_0'', ''rotate_1'', ''rotate_2'', ''rotate_3'', ''rotate_5'']"

definition whitelisted :: "JointPosMap \<Rightarrow> JointPosMap" where
  "whitelisted jp = filter (\<lambda>(j, q). j \<in> set whitelist) jp"

text \<open>The entry of an updates map for one name, if it has one.\<close>

definition present :: "JointPosMap \<Rightarrow> string \<Rightarrow> JointPosMap" where
  "present jp j = (case map_of jp j of None \<Rightarrow> [] | Some q \<Rightarrow> [(j, q)])"

text \<open>The frame \<open>f2\<close> of \<open>twice_doc\<close> as the editor holds it, and an editor holding it.\<close>

definition frame_f2 :: Frame where
  "frame_f2 =
     \<lparr>time = 100, delay = 0, repeat = 1, name = ''f2'', selected = False,
      dxl = \<lparr>elems = [\<lparr>id_v = 0, position = 1 / 4\<rparr>, \<lparr>id_v = 0, position = 1 / 2\<rparr>],
             capacity = 2\<rparr>\<rparr>"

definition twice_editor :: MotionEditor where
  "twice_editor = new_MotionEditor\<lparr>frames := [frame_f2]\<rparr>"

text \<open>
  The edit in the specification's words, on the joints of the frame alone: resolve
  the name; if it does not resolve, fail when strict and skip the pair otherwise;
  if the frame has an entry with the resolved id, overwrite its position (the last
  such entry, as \<^verbatim>\<open>id2dxl\<close> is built), and if not, append a new entry.
\<close>

fun last_entry :: "int \<Rightarrow> DxlValue list \<Rightarrow> nat option" where
  "last_entry i [] = None"
| "last_entry i (x # xs) =
     (case last_entry i xs of
        Some k \<Rightarrow> Some (Suc k)
      | None \<Rightarrow> if id_v x = i then Some 0 else None)"

fun spec_edit ::
  "(string \<rightharpoonup> int) \<Rightarrow> bool \<Rightarrow> JointPosMap \<Rightarrow> DxlValue list \<Rightarrow> error option \<times> DxlValue list" where
  "spec_edit j2i strict [] xs = (None, xs)"
| "spec_edit j2i strict ((jname, qrad) # rest) xs =
     (case j2i jname of
        None \<Rightarrow>
          if strict then (Some (UnknownJointName jname), xs)
          else spec_edit j2i strict rest xs
      | Some i \<Rightarrow>
          (case last_entry i xs of
             None \<Rightarrow> spec_edit j2i strict rest (xs @ [\<lparr>id_v = i, position = qrad\<rparr>])
           | Some k \<Rightarrow> spec_edit j2i strict rest (xs[k := (xs ! k)\<lparr>position := qrad\<rparr>])))"

section \<open>Lookup facts\<close>

lemma find_from_absent:
  "step_name \<notin> name ` set fs \<Longrightarrow> find_from i fs step_name = -1"
  by (induction fs arbitrary: i) auto

lemma find_from_present:
  "step_name \<in> name ` set fs \<Longrightarrow>
     0 \<le> i \<Longrightarrow> i \<le> find_from i fs step_name \<and> find_from i fs step_name < i + int (length fs)"
proof (induction fs arbitrary: i)
  case Nil
  then show ?case by simp
next
  case (Cons f fs)
  show ?case
  proof (cases "name f = step_name")
    case True
    then show ?thesis by simp
  next
    case False
    with Cons.prems have "step_name \<in> name ` set fs" by auto
    from Cons.IH [OF this, of "i + 1"] Cons.prems False show ?thesis by auto
  qed
qed

lemmas demo_simps = demo_lib_def demo_files_def demo_docs_def motion_doc_def twice_doc_def
  broken_doc_def nodxl_node_def frame_node_def frame_entries_def dxl_entry_def demo_ints_def demo_doubles_def
  demo_bools_def scalar_by_def demo_as_string_def text_of_def

lemmas editor_simps = loadFromFile_def LoadFile_def appearsFrame_def hasKey_def
  parseFrameFromNode_def optional_field_def required_field_def push_back_def reallocates_def
  empty_vector_def motion_editor_def new_MotionEditor_def new_MotionEditor_with_def frame_f1_def
  motion_blobs_def

section \<open>Classification and loading\<close>

lemma find_key_None: "find_key kvs key = None \<longleftrightarrow> YScalar key \<notin> fst ` set kvs"
proof (induction kvs)
  case Nil
  then show ?case by simp
next
  case (Cons kv kvs)
  then show ?case by (cases kv) (simp add: image_iff)
qed

lemma hasKey_YMap: "hasKey (YMap kvs) key \<longleftrightarrow> YScalar key \<in> fst ` set kvs"
proof (cases "find_key kvs key")
  case None
  then show ?thesis using find_key_None [of kvs key] by (simp add: hasKey_def)
next
  case (Some v)
  then show ?thesis using find_key_None [of kvs key] by (simp add: hasKey_def)
qed

lemma appearsFrame_shape: "appearsFrame item = is_frame_shape item"
  by (cases item) (simp_all add: appearsFrame_def is_frame_shape_def hasKey_YMap, simp_all add: hasKey_def)

lemma load_items_ok:
  "load_items L items s = (None, s') \<Longrightarrow>
     meta_blobs s' = meta_blobs s @ map (blob_of L) (filter (\<lambda>i. \<not> appearsFrame i) items) \<and>
     map Inr (frames s') = map Inr (frames s) @ map (parseFrameFromNode L) (filter appearsFrame items) \<and>
     joint_to_id s' = joint_to_id s"
proof (induction items arbitrary: s)
  case Nil
  then show ?case by simp
next
  case (Cons item items)
  show ?case
  proof (cases "appearsFrame item")
    case False
    with Cons.prems have "load_items L items (s\<lparr>meta_blobs := meta_blobs s @ [\<lparr>rawYaml = dump L item\<rparr>]\<rparr>) = (None, s')"
      by simp
    from Cons.IH [OF this] False show ?thesis by (simp add: blob_of_def)
  next
    case True
    show ?thesis
    proof (cases "parseFrameFromNode L item")
      case (Inl e)
      with True Cons.prems show ?thesis by simp
    next
      case (Inr f)
      with True Cons.prems have "load_items L items (s\<lparr>frames := frames s @ [f]\<rparr>) = (None, s')"
        by simp
      from Cons.IH [OF this] True Inr show ?thesis by simp
    qed
  qed
qed

lemma load_items_failed:
  "load_items L items s = (Some e, s') \<Longrightarrow>
     \<exists>pre item post. items = pre @ item # post \<and> appearsFrame item \<and>
        parseFrameFromNode L item = Inl e \<and> load_items L pre s = (None, s')"
proof (induction items arbitrary: s)
  case Nil
  then show ?case by simp
next
  case (Cons item items)
  show ?case
  proof (cases "appearsFrame item")
    case False
    with Cons.prems have "load_items L items (s\<lparr>meta_blobs := meta_blobs s @ [\<lparr>rawYaml = dump L item\<rparr>]\<rparr>) = (Some e, s')"
      by simp
    from Cons.IH [OF this] obtain pre it post where
      "items = pre @ it # post" "appearsFrame it" "parseFrameFromNode L it = Inl e"
      "load_items L pre (s\<lparr>meta_blobs := meta_blobs s @ [\<lparr>rawYaml = dump L item\<rparr>]\<rparr>) = (None, s')"
      by blast
    with False have "item # items = (item # pre) @ it # post \<and> appearsFrame it \<and>
        parseFrameFromNode L it = Inl e \<and> load_items L (item # pre) s = (None, s')"
      by simp
    then show ?thesis by blast
  next
    case True
    show ?thesis
    proof (cases "parseFrameFromNode L item")
      case (Inl e')
      with True Cons.prems have "e' = e" "s' = s" by simp_all
      with True Inl have "item # items = [] @ item # items \<and> appearsFrame item \<and>
        parseFrameFromNode L item = Inl e \<and> load_items L [] s = (None, s')"
        by simp
      then show ?thesis by blast
    next
      case (Inr f)
      with True Cons.prems have "load_items L items (s\<lparr>frames := frames s @ [f]\<rparr>) = (Some e, s')"
        by simp
      from Cons.IH [OF this] obtain pre it post where
        "items = pre @ it # post" "appearsFrame it" "parseFrameFromNode L it = Inl e"
        "load_items L pre (s\<lparr>frames := frames s @ [f]\<rparr>) = (None, s')"
        by blast
      with True Inr have "item # items = (item # pre) @ it # post \<and> appearsFrame it \<and>
        parseFrameFromNode L it = Inl e \<and> load_items L (item # pre) s = (None, s')"
        by simp
      then show ?thesis by blast
    qed
  qed
qed

text \<open>
  C1. When the top-level value of the file is a sequence and the load succeeds, an
  entry is taken for a frame exactly when it is a mapping with the three keys \<open>dxl\<close>,
  \<open>time\<close> and \<open>name\<close> (\<open>is_frame_shape\<close>, a test of presence only): the frames of the
  editor are the parses of those entries, in order, and every other entry (a scalar,
  a sequence, a mapping without one of the keys) is stored as a blob, in order.
\<close>

theorem load_classification:
  assumes "LoadFile L fsys path = Inr (YSeq items)"
    and "loadFromFile L fsys s path = (None, s')"
  shows "(\<forall>item. appearsFrame item = is_frame_shape item) \<and>
         meta_blobs s' = map (blob_of L) (filter (\<lambda>item. \<not> is_frame_shape item) items) \<and>
         map Inr (frames s') = map (parseFrameFromNode L) (filter is_frame_shape items)"
proof -
  from assms have "load_items L items (s\<lparr>meta_blobs := [], frames := []\<rparr>) = (None, s')"
    by (simp add: loadFromFile_def)
  from load_items_ok [OF this] show ?thesis
    by (simp add: appearsFrame_shape [abs_def])
qed

lemma motion_load: "loadFromFile demo_lib demo_files new_MotionEditor ''motion.yaml'' = (None, motion_editor)"
  by (simp add: editor_simps demo_simps)

lemma motion_LoadFile: "LoadFile demo_lib demo_files ''motion.yaml'' = Inr motion_doc"
  by (simp add: LoadFile_def demo_simps)

theorem load_classification_witness:
  "LoadFile demo_lib demo_files ''motion.yaml'' =
     Inr (YSeq [YScalar ''meta'', nodxl_node, frame_node ''f1'' (YSeq [dxl_entry ''0'' ''0.5''])]) \<and>
   loadFromFile demo_lib demo_files new_MotionEditor ''motion.yaml'' = (None, motion_editor) \<and>
   \<not> is_frame_shape nodxl_node \<and>
   meta_blobs motion_editor = [blob_of demo_lib (YScalar ''meta''), blob_of demo_lib nodxl_node] \<and>
   map Inr (frames motion_editor) =
     [parseFrameFromNode demo_lib (frame_node ''f1'' (YSeq [dxl_entry ''0'' ''0.5'']))]"
proof -
  have a: "LoadFile demo_lib demo_files ''motion.yaml'' =
     Inr (YSeq [YScalar ''meta'', nodxl_node, frame_node ''f1'' (YSeq [dxl_entry ''0'' ''0.5''])])"
    using motion_LoadFile by (simp add: motion_doc_def)
  have s: "\<not> is_frame_shape nodxl_node" "\<not> is_frame_shape (YScalar ''meta'')"
    "is_frame_shape (frame_node ''f1'' d)" for d
    by (simp_all add: is_frame_shape_def nodxl_node_def frame_node_def frame_entries_def)
  from load_classification [OF a motion_load] a motion_load s show ?thesis
    by simp
qed

section \<open>A frame that is not there\<close>

text \<open>
  C6. When no frame of the document has the given name, \<open>editJoints\<close> throws the
  step-not-found error, whatever the strict flag and whatever the updates, and the
  editor (blobs, frames, joint mapping) is as it was.
\<close>

theorem editJoints_missing_frame:
  assumes "step_name \<notin> name ` set (frames s)"
  shows "editJoints L s step_name joint_positions_rad strict = (Some (StepNotFound step_name), s)"
  using assms by (simp add: editJoints_def findFrameIndexByName_def find_from_absent)

theorem editJoints_missing_frame_witness:
  "''nonexistent'' \<notin> name ` set (frames motion_editor) \<and>
   editJoints demo_lib motion_editor ''nonexistent'' [(''rotate_1'', 1)] True =
     (Some (StepNotFound ''nonexistent''), motion_editor)"
proof -
  have h: "''nonexistent'' \<notin> name ` set (frames motion_editor)"
    by (simp add: motion_editor_def frame_f1_def)
  from editJoints_missing_frame [OF h] h show ?thesis by simp
qed

section \<open>A load that fails\<close>

lemma load_items_fails:
  "item \<in> set items \<Longrightarrow> appearsFrame item \<Longrightarrow> parseFrameFromNode L item = Inl e0 \<Longrightarrow>
     fst (load_items L items s) \<noteq> None"
proof (induction items arbitrary: s)
  case Nil
  then show ?case by simp
next
  case (Cons a items)
  show ?case
  proof (cases "a = item")
    case True
    with Cons.prems show ?thesis by simp
  next
    case False
    with Cons.prems have "item \<in> set items" by simp
    from Cons.IH [OF this Cons.prems(2,3)] show ?thesis
      by (simp split: sum.splits)
  qed
qed

text \<open>
  C3, as the code has it. A load that fails throws and never keeps the previous
  blobs and frames, but the editor is empty only when nothing was appended before
  the failure: when the file cannot be read or parsed, or its top-level value is not
  a sequence, the editor is left with no blobs and no frames; when a frame candidate
  fails to parse, the load throws that error and the editor holds exactly the blobs
  and frames of the entries before that candidate. The joint mapping is kept.
\<close>

theorem failed_load_state:
  "(\<forall>e. LoadFile L fsys path = Inl e \<longrightarrow>
      loadFromFile L fsys s path = (Some e, s\<lparr>meta_blobs := [], frames := []\<rparr>)) \<and>
   (\<forall>doc. LoadFile L fsys path = Inr doc \<longrightarrow> \<not> IsSequence doc \<longrightarrow>
      loadFromFile L fsys s path = (Some TopLevelNotSequence, s\<lparr>meta_blobs := [], frames := []\<rparr>)) \<and>
   (\<forall>items item e. LoadFile L fsys path = Inr (YSeq items) \<longrightarrow> item \<in> set items \<longrightarrow>
      appearsFrame item \<longrightarrow> parseFrameFromNode L item = Inl e \<longrightarrow>
      fst (loadFromFile L fsys s path) \<noteq> None) \<and>
   (\<forall>items e s'. LoadFile L fsys path = Inr (YSeq items) \<longrightarrow>
      loadFromFile L fsys s path = (Some e, s') \<longrightarrow>
      (\<exists>pre item post. items = pre @ item # post \<and> appearsFrame item \<and>
         parseFrameFromNode L item = Inl e \<and>
         meta_blobs s' = map (blob_of L) (filter (\<lambda>i. \<not> appearsFrame i) pre) \<and>
         map Inr (frames s') = map (parseFrameFromNode L) (filter appearsFrame pre) \<and>
         joint_to_id s' = joint_to_id s))"
proof (intro conjI allI impI)
  fix e assume "LoadFile L fsys path = Inl e"
  then show "loadFromFile L fsys s path = (Some e, s\<lparr>meta_blobs := [], frames := []\<rparr>)"
    by (simp add: loadFromFile_def)
next
  fix doc assume "LoadFile L fsys path = Inr doc" "\<not> IsSequence doc"
  then show "loadFromFile L fsys s path = (Some TopLevelNotSequence, s\<lparr>meta_blobs := [], frames := []\<rparr>)"
    by (cases doc) (simp_all add: loadFromFile_def)
next
  fix items item e
  assume "LoadFile L fsys path = Inr (YSeq items)" "item \<in> set items" "appearsFrame item"
    "parseFrameFromNode L item = Inl e"
  then show "fst (loadFromFile L fsys s path) \<noteq> None"
    using load_items_fails [of item items L e] by (simp add: loadFromFile_def)
next
  fix items e s'
  assume "LoadFile L fsys path = Inr (YSeq items)" "loadFromFile L fsys s path = (Some e, s')"
  then have "load_items L items (s\<lparr>meta_blobs := [], frames := []\<rparr>) = (Some e, s')"
    by (simp add: loadFromFile_def)
  from load_items_failed [OF this] obtain pre item post where
    p: "items = pre @ item # post" "appearsFrame item" "parseFrameFromNode L item = Inl e"
    "load_items L pre (s\<lparr>meta_blobs := [], frames := []\<rparr>) = (None, s')"
    by blast
  from load_items_ok [OF p(4)] p(1,2,3)
  show "\<exists>pre item post. items = pre @ item # post \<and> appearsFrame item \<and>
         parseFrameFromNode L item = Inl e \<and>
         meta_blobs s' = map (blob_of L) (filter (\<lambda>i. \<not> appearsFrame i) pre) \<and>
         map Inr (frames s') = map (parseFrameFromNode L) (filter appearsFrame pre) \<and>
         joint_to_id s' = joint_to_id s"
    by auto
qed

lemma broken_load:
  "loadFromFile demo_lib demo_files motion_editor ''broken.yaml'' =
     (Some (FrameMissingDxl ''bad''), new_MotionEditor\<lparr>meta_blobs := [\<lparr>rawYaml = ''meta''\<rparr>]\<rparr>)"
  by (simp add: editor_simps demo_simps)

lemma broken_LoadFile: "LoadFile demo_lib demo_files ''broken.yaml'' = Inr broken_doc"
  by (simp add: LoadFile_def demo_simps)

text \<open>
  C3 as stated fails: in \<open>broken.yaml\<close> a scalar entry precedes a frame candidate
  whose \<open>dxl\<close> is a scalar. Loading it over an editor that holds \<open>motion.yaml\<close> throws,
  and the editor is left with the blob of the scalar entry.
\<close>

theorem failed_load_not_empty:
  "fst (loadFromFile demo_lib demo_files motion_editor ''broken.yaml'') = Some (FrameMissingDxl ''bad'') \<and>
   meta_blobs (snd (loadFromFile demo_lib demo_files motion_editor ''broken.yaml'')) =
     [\<lparr>rawYaml = ''meta''\<rparr>]"
  by (simp add: broken_load)

theorem failed_load_state_witness:
  "LoadFile demo_lib demo_files ''broken.yaml'' =
     Inr (YSeq [YScalar ''meta'', frame_node ''bad'' (YScalar ''5'')]) \<and>
   appearsFrame (frame_node ''bad'' (YScalar ''5'')) \<and>
   parseFrameFromNode demo_lib (frame_node ''bad'' (YScalar ''5'')) = Inl (FrameMissingDxl ''bad'') \<and>
   fst (loadFromFile demo_lib demo_files motion_editor ''broken.yaml'') \<noteq> None \<and>
   LoadFile demo_lib demo_files ''scalar.yaml'' = Inr (YScalar ''meta'') \<and>
   loadFromFile demo_lib demo_files motion_editor ''scalar.yaml'' =
     (Some TopLevelNotSequence, motion_editor\<lparr>meta_blobs := [], frames := []\<rparr>) \<and>
   LoadFile demo_lib demo_files ''nofile.yaml'' = Inl BadFile \<and>
   loadFromFile demo_lib demo_files motion_editor ''nofile.yaml'' =
     (Some BadFile, motion_editor\<lparr>meta_blobs := [], frames := []\<rparr>)"
proof -
  have a: "LoadFile demo_lib demo_files ''broken.yaml'' =
     Inr (YSeq [YScalar ''meta'', frame_node ''bad'' (YScalar ''5'')])"
    using broken_LoadFile by (simp add: broken_doc_def)
  have b: "frame_node ''bad'' (YScalar ''5'') \<in> set [YScalar ''meta'', frame_node ''bad'' (YScalar ''5'')]"
    by simp
  have c: "appearsFrame (frame_node ''bad'' (YScalar ''5''))"
    by (simp add: appearsFrame_def hasKey_def frame_node_def frame_entries_def)
  have d: "parseFrameFromNode demo_lib (frame_node ''bad'' (YScalar ''5'')) = Inl (FrameMissingDxl ''bad'')"
    by (simp add: editor_simps demo_simps)
  have e: "LoadFile demo_lib demo_files ''scalar.yaml'' = Inr (YScalar ''meta'')"
    by (simp add: LoadFile_def demo_simps)
  have f: "LoadFile demo_lib demo_files ''nofile.yaml'' = Inl BadFile"
    by (simp add: LoadFile_def demo_simps)
  from failed_load_state [of demo_lib demo_files "''broken.yaml''" motion_editor]
  have g: "fst (loadFromFile demo_lib demo_files motion_editor ''broken.yaml'') \<noteq> None"
    using a b c d by blast
  from failed_load_state [of demo_lib demo_files "''scalar.yaml''" motion_editor] e
  have h: "loadFromFile demo_lib demo_files motion_editor ''scalar.yaml'' =
     (Some TopLevelNotSequence, motion_editor\<lparr>meta_blobs := [], frames := []\<rparr>)"
    by simp
  from failed_load_state [of demo_lib demo_files "''nofile.yaml''" motion_editor] f
  have i: "loadFromFile demo_lib demo_files motion_editor ''nofile.yaml'' =
     (Some BadFile, motion_editor\<lparr>meta_blobs := [], frames := []\<rparr>)"
    by simp
  from a c d e f g h i show ?thesis by simp
qed


section \<open>Parsing a frame candidate\<close>

lemma elems_push_back: "elems (push_back L v x) = elems v @ [x]"
  by (simp add: push_back_def)





















section \<open>Saving\<close>

lemma push_metas_those:
  "push_metas L mbs out =
     (case those (map (\<lambda>mb. Load L (rawYaml mb)) mbs) of
        None \<Rightarrow> Inl ParserException
      | Some ms \<Rightarrow> Inr (out @ ms))"
  by (induction mbs arbitrary: out) (auto split: option.splits)

lemma push_dxl_map: "push_dxl L dvs acc = acc @ map (emitted_joint L) dvs"
  by (induction dvs arbitrary: acc) (simp_all add: emitted_joint_def)

lemma push_frames_map: "push_frames L fs out = out @ map (emitted_frame L) fs"
  by (induction fs arbitrary: out) (simp_all add: emitted_frame_def push_dxl_map)

lemma buildYamlFromAll_layout:
  "buildYamlFromAll L metas fs =
     (case those (map (\<lambda>mb. Load L (rawYaml mb)) metas) of
        None \<Rightarrow> Inl ParserException
      | Some expanded \<Rightarrow> Inr (YSeq (expanded @ map (emitted_frame L) fs)))"
  by (simp add: buildYamlFromAll_def push_metas_those push_frames_map split: option.splits)

text \<open>
  C9. For every editor state, what \<open>saveToFile\<close> writes is the emitter's text of one
  top-level sequence: all blobs in their order, each re-expanded by parsing its stored
  text, followed by all frames in their order, each as \<open>emitted_frame\<close> has it (a
  mapping with exactly the six fields \<open>time\<close>, \<open>delay\<close>, \<open>repeat\<close>, \<open>name\<close>, \<open>selected\<close>,
  \<open>dxl\<close> in this order, \<open>dxl\<close> the sequence of the frame's joints in their current order,
  each a mapping with \<open>id\<close> and \<open>position\<close>). Nothing is written when the library
  fails to parse the stored text of a blob or the file cannot be opened: the save
  throws.
\<close>

theorem save_layout:
  "saveToFile L fsys s path =
     (case those (map (\<lambda>mb. Load L (rawYaml mb)) (meta_blobs s)) of
        None \<Rightarrow> Inl ParserException
      | Some expanded \<Rightarrow>
          if can_write fsys path then
            Inr (fsys\<lparr>content := (content fsys)
              (path \<mapsto> dump L (YSeq (expanded @ map (emitted_frame L) (frames s))))\<rparr>)
          else Inl (CannotOpenFile path))"
  by (simp add: saveToFile_def buildYamlFromAll_layout split: option.splits)

theorem save_layout_witness:
  "those (map (\<lambda>mb. Load demo_lib (rawYaml mb)) (meta_blobs motion_editor)) =
     Some [YScalar ''meta'', nodxl_node] \<and>
   emitted_frame demo_lib frame_f1 = frame_node ''f1'' (YSeq [dxl_entry ''0'' ''0.5'']) \<and>
   saveToFile demo_lib demo_files motion_editor ''out.yaml'' =
     Inr (demo_files\<lparr>content := (content demo_files)(''out.yaml'' \<mapsto> dump demo_lib motion_doc)\<rparr>)"
proof -
  have a: "those (map (\<lambda>mb. Load demo_lib (rawYaml mb)) (meta_blobs motion_editor)) =
     Some [YScalar ''meta'', nodxl_node]"
    by (simp add: motion_editor_def motion_blobs_def demo_lib_def demo_docs_def)
  have b: "emitted_frame demo_lib frame_f1 = frame_node ''f1'' (YSeq [dxl_entry ''0'' ''0.5''])"
    by (simp add: emitted_frame_def emitted_joint_def frame_f1_def demo_simps)
  have c: "can_write demo_files ''out.yaml''" by (simp add: demo_files_def)
  have d: "frames motion_editor = [frame_f1]" by (simp add: motion_editor_def)
  from save_layout [of demo_lib demo_files motion_editor "''out.yaml''"] a b c d
  show ?thesis by (simp add: motion_doc_def)
qed

section \<open>Saving and loading again\<close>

lemma appearsFrame_emitted: "appearsFrame (emitted_frame L f)"
  by (simp add: appearsFrame_def hasKey_def emitted_frame_def)

lemma parse_dxl_emitted:
  "\<forall>dv\<in>set dvs. as_int L (YScalar (int_text L (id_v dv))) = Some (id_v dv) \<and>
       as_double L (YScalar (double_text L (position dv))) = Some (position dv) \<Longrightarrow>
   \<exists>v'. parse_dxl L (map (emitted_joint L) dvs) v = Inr v' \<and> elems v' = elems v @ dvs"
proof (induction dvs arbitrary: v)
  case Nil
  then show ?case by simp
next
  case (Cons dv dvs)
  then have dv: "required_field (as_int L) (emitted_joint L dv) ''id'' = Inr (id_v dv)"
    "required_field (as_double L) (emitted_joint L dv) ''position'' = Inr (position dv)"
    by (simp_all add: required_field_def emitted_joint_def)
  have m: "IsMap (emitted_joint L dv)" by (simp add: emitted_joint_def)
  have r: "\<lparr>id_v = id_v dv, position = position dv\<rparr> = dv" by simp
  from Cons.prems have "\<forall>dv\<in>set dvs. as_int L (YScalar (int_text L (id_v dv))) = Some (id_v dv) \<and>
       as_double L (YScalar (double_text L (position dv))) = Some (position dv)"
    by simp
  from Cons.IH [OF this, of "push_back L v dv"] obtain v' where
    v': "parse_dxl L (map (emitted_joint L) dvs) (push_back L v dv) = Inr v'"
      "elems v' = elems v @ dv # dvs"
    by (auto simp: elems_push_back)
  have "parse_dxl L (map (emitted_joint L) (dv # dvs)) v =
      parse_dxl L (map (emitted_joint L) dvs) (push_back L v \<lparr>id_v = id_v dv, position = position dv\<rparr>)"
    using dv m by simp
  also have "\<dots> = Inr v'" unfolding r by (rule v'(1))
  finally show ?case using v'(2) by blast
qed

lemma parse_emitted:
  assumes "roundtrips L f"
  shows "\<exists>g. parseFrameFromNode L (emitted_frame L f) = Inr g \<and> frame_fields g = frame_fields f"
proof -
  from assms have j: "\<forall>dv\<in>set (elems (dxl f)).
      as_int L (YScalar (int_text L (id_v dv))) = Some (id_v dv) \<and>
      as_double L (YScalar (double_text L (position dv))) = Some (position dv)"
    by (simp add: roundtrips_def)
  from parse_dxl_emitted [OF j, of empty_vector] obtain v where
    v: "parse_dxl L (map (emitted_joint L) (elems (dxl f))) empty_vector = Inr v"
      "elems v = elems (dxl f)"
    by (auto simp: empty_vector_def)
  from assms v(1) have "parseFrameFromNode L (emitted_frame L f) =
      Inr \<lparr>time = time f, delay = delay f, repeat = repeat f, name = name f,
           selected = selected f, dxl = v\<rparr>"
    by (simp add: roundtrips_def parseFrameFromNode_def optional_field_def emitted_frame_def)
  with v(2) show ?thesis by (simp add: frame_fields_def)
qed

lemma load_items_blobs:
  "\<forall>x\<in>set xs. \<not> appearsFrame x \<Longrightarrow>
     load_items L (xs @ ys) s = load_items L ys (s\<lparr>meta_blobs := meta_blobs s @ map (blob_of L) xs\<rparr>)"
  by (induction xs arbitrary: s) (simp_all add: blob_of_def)

lemma load_items_emitted:
  "\<forall>f\<in>set fs. roundtrips L f \<Longrightarrow>
     \<exists>gs. load_items L (map (emitted_frame L) fs) s = (None, s\<lparr>frames := frames s @ gs\<rparr>) \<and>
          map frame_fields gs = map frame_fields fs"
proof (induction fs arbitrary: s)
  case Nil
  have "load_items L (map (emitted_frame L) []) s = (None, s\<lparr>frames := frames s @ []\<rparr>)"
    by simp
  then show ?case by blast
next
  case (Cons f fs)
  then have "roundtrips L f" by simp
  from parse_emitted [OF this] obtain g where
    g: "parseFrameFromNode L (emitted_frame L f) = Inr g" "frame_fields g = frame_fields f"
    by blast
  from Cons.prems have "\<forall>f\<in>set fs. roundtrips L f" by simp
  from Cons.IH [OF this, of "s\<lparr>frames := frames s @ [g]\<rparr>"] obtain gs where
    gs: "load_items L (map (emitted_frame L) fs) (s\<lparr>frames := frames s @ [g]\<rparr>) =
           (None, s\<lparr>frames := frames s @ [g] @ gs\<rparr>)"
      "map frame_fields gs = map frame_fields fs"
    by auto
  from g gs have "load_items L (map (emitted_frame L) (f # fs)) s = (None, s\<lparr>frames := frames s @ (g # gs)\<rparr>) \<and>
          map frame_fields (g # gs) = map frame_fields (f # fs)"
    by (simp add: appearsFrame_emitted)
  then show ?case by blast
qed

text \<open>Saving any state whose blobs re-expand to entries that are not frames, and loading the file.\<close>

lemma save_then_load:
  assumes expanded: "those (map (\<lambda>mb. Load L (rawYaml mb)) (meta_blobs s)) = Some expanded"
    and blobs: "\<forall>x\<in>set expanded. \<not> appearsFrame x"
    and conv: "\<forall>f\<in>set (frames s). roundtrips L f"
    and saved: "saveToFile L fsys s path = Inr fsys'"
    and out: "Load L (dump L (YSeq (expanded @ map (emitted_frame L) (frames s)))) =
        Some (YSeq (expanded @ map (emitted_frame L) (frames s)))"
  shows "\<exists>s'. loadFromFile L fsys' t path = (None, s') \<and>
      map frame_fields (frames s') = map frame_fields (frames s) \<and>
      meta_blobs s' = map (blob_of L) expanded \<and> joint_to_id s' = joint_to_id t"
proof -
  let ?out = "YSeq (expanded @ map (emitted_frame L) (frames s))"
  from saved expanded have "content fsys' path = Some (dump L ?out)"
    by (auto simp: save_layout split: if_splits)
  with out have lf: "LoadFile L fsys' path = Inr ?out"
    by (simp add: LoadFile_def)
  let ?t0 = "t\<lparr>meta_blobs := [], frames := []\<rparr>"
  from load_items_emitted [OF conv, of "?t0\<lparr>meta_blobs := meta_blobs ?t0 @ map (blob_of L) expanded\<rparr>"]
  obtain gs where
    gs: "load_items L (map (emitted_frame L) (frames s))
           (?t0\<lparr>meta_blobs := meta_blobs ?t0 @ map (blob_of L) expanded\<rparr>) =
         (None, ?t0\<lparr>meta_blobs := meta_blobs ?t0 @ map (blob_of L) expanded\<rparr>
                  \<lparr>frames := frames (?t0\<lparr>meta_blobs := meta_blobs ?t0 @ map (blob_of L) expanded\<rparr>) @ gs\<rparr>)"
      "map frame_fields gs = map frame_fields (frames s)"
    by blast
  from lf gs(1) have "loadFromFile L fsys' t path =
      (None, t\<lparr>meta_blobs := map (blob_of L) expanded, frames := gs\<rparr>)"
    by (simp add: loadFromFile_def load_items_blobs [OF blobs])
  with gs(2) show ?thesis by simp
qed

lemma those_reloaded:
  "\<forall>x\<in>set xs. Load L (dump L x) = Some x \<Longrightarrow>
     those (map (\<lambda>mb. Load L (rawYaml mb)) (map (blob_of L) xs)) = Some xs"
  by (induction xs) (simp_all add: blob_of_def)

text \<open>
  C2. Let a document load successfully, and let the editor be saved later, with the
  blobs of that load and whatever frames it then holds (those loaded, or edited
  since). If the save succeeds, loading the saved file into any editor \<open>t\<close>, whatever
  it held before, succeeds and gives it frames with the same \<open>time\<close>, \<open>delay\<close>,
  \<open>repeat\<close>, \<open>name\<close> and \<open>selected\<close> and the same joints \<open>(id, position)\<close> in the same order
  as the editor that was saved, and the same blobs; \<open>t\<close> keeps its joint mapping. The
  theorem takes from yaml-cpp what it cannot take from the source: that the library
  parses the text it emits for the saved document and for the entries it stored as
  blobs back to the same nodes, and converts the scalars it wrote for the frames
  back to the same values (\<open>roundtrips\<close>).
\<close>

theorem save_load_roundtrip:
  assumes loaded: "loadFromFile L fsys0 s0 path0 = (None, s1)"
    and doc: "LoadFile L fsys0 path0 = Inr (YSeq items)"
    and blobs_rt: "\<forall>item\<in>set items. \<not> appearsFrame item \<longrightarrow> Load L (dump L item) = Some item"
    and same_blobs: "meta_blobs s = meta_blobs s1"
    and conv: "\<forall>f\<in>set (frames s). roundtrips L f"
    and saved: "saveToFile L fsys s path = Inr fsys'"
    and out_rt: "\<forall>out. buildYamlFromAll L (meta_blobs s) (frames s) = Inr out \<longrightarrow>
                   Load L (dump L out) = Some out"
  shows "\<exists>s'. loadFromFile L fsys' t path = (None, s') \<and>
           map frame_fields (frames s') = map frame_fields (frames s) \<and>
           meta_blobs s' = meta_blobs s \<and> joint_to_id s' = joint_to_id t"
proof -
  let ?blobs = "filter (\<lambda>i. \<not> appearsFrame i) items"
  from loaded doc have "load_items L items (s0\<lparr>meta_blobs := [], frames := []\<rparr>) = (None, s1)"
    by (simp add: loadFromFile_def)
  from load_items_ok [OF this] same_blobs have mb: "meta_blobs s = map (blob_of L) ?blobs"
    by simp
  from blobs_rt have "\<forall>x\<in>set ?blobs. Load L (dump L x) = Some x" by simp
  from those_reloaded [OF this] mb
  have expanded: "those (map (\<lambda>mb. Load L (rawYaml mb)) (meta_blobs s)) = Some ?blobs"
    by simp
  have nf: "\<forall>x\<in>set ?blobs. \<not> appearsFrame x" by simp
  from expanded have "buildYamlFromAll L (meta_blobs s) (frames s) =
      Inr (YSeq (?blobs @ map (emitted_frame L) (frames s)))"
    by (simp add: buildYamlFromAll_layout)
  with out_rt have out: "Load L (dump L (YSeq (?blobs @ map (emitted_frame L) (frames s)))) =
      Some (YSeq (?blobs @ map (emitted_frame L) (frames s)))"
    by blast
  from save_then_load [OF expanded nf conv saved out, of t] mb show ?thesis by simp
qed

lemma motion_build: "buildYamlFromAll demo_lib (meta_blobs motion_editor) (frames motion_editor) = Inr motion_doc"
  by (simp add: buildYamlFromAll_def motion_editor_def motion_blobs_def frame_f1_def demo_simps)

theorem save_load_roundtrip_witness:
  "loadFromFile demo_lib demo_files new_MotionEditor ''motion.yaml'' = (None, motion_editor) \<and>
   saveToFile demo_lib demo_files motion_editor ''out.yaml'' =
     Inr (demo_files\<lparr>content := (content demo_files)(''out.yaml'' \<mapsto> ''<motion>'')\<rparr>) \<and>
   frames twice_editor = [frame_f2] \<and>
   (\<exists>s'. loadFromFile demo_lib
            (demo_files\<lparr>content := (content demo_files)(''out.yaml'' \<mapsto> ''<motion>'')\<rparr>)
            twice_editor ''out.yaml'' = (None, s') \<and>
         map frame_fields (frames s') = map frame_fields [frame_f1] \<and>
         meta_blobs s' = motion_blobs \<and> joint_to_id s' = joint_to_id twice_editor)"
proof -
  have doc: "LoadFile demo_lib demo_files ''motion.yaml'' =
      Inr (YSeq [YScalar ''meta'', nodxl_node, frame_node ''f1'' (YSeq [dxl_entry ''0'' ''0.5''])])"
    using motion_LoadFile by (simp add: motion_doc_def)
  have blobs_rt: "\<forall>item\<in>set [YScalar ''meta'', nodxl_node, frame_node ''f1'' (YSeq [dxl_entry ''0'' ''0.5''])].
      \<not> appearsFrame item \<longrightarrow> Load demo_lib (dump demo_lib item) = Some item"
    by (simp add: appearsFrame_def hasKey_def demo_simps)
  have conv: "\<forall>f\<in>set (frames motion_editor). roundtrips demo_lib f"
    by (simp add: motion_editor_def frame_f1_def roundtrips_def demo_simps)
  have saved: "saveToFile demo_lib demo_files motion_editor ''out.yaml'' =
     Inr (demo_files\<lparr>content := (content demo_files)(''out.yaml'' \<mapsto> ''<motion>'')\<rparr>)"
    by (simp add: saveToFile_def motion_build) (simp add: demo_simps)
  have out_rt: "\<forall>out. buildYamlFromAll demo_lib (meta_blobs motion_editor) (frames motion_editor) = Inr out \<longrightarrow>
      Load demo_lib (dump demo_lib out) = Some out"
    by (simp add: motion_build) (simp add: demo_simps)
  have held: "frames twice_editor = [frame_f2]" "frames motion_editor = [frame_f1]"
    "meta_blobs motion_editor = motion_blobs"
    by (simp_all add: twice_editor_def motion_editor_def)
  from save_load_roundtrip [OF motion_load doc blobs_rt refl conv saved out_rt, of twice_editor]
    motion_load saved held
  show ?thesis by simp
qed

section \<open>The six-joint wrapper\<close>

lemma put_fresh: "j \<notin> fst ` set sub \<Longrightarrow> put jp j sub = sub @ present jp j"
  by (simp add: put_def umap_assign_def present_def split: option.splits)

lemma fst_present: "fst ` set (present jp j) \<subseteq> {j}"
  by (auto simp: present_def split: option.splits)

lemma fold_put:
  "distinct names \<Longrightarrow> set names \<inter> fst ` set sub = {} \<Longrightarrow>
     fold (put jp) names sub = sub @ concat (map (present jp) names)"
proof (induction names arbitrary: sub)
  case Nil
  then show ?case by simp
next
  case (Cons j names)
  then have fresh: "j \<notin> fst ` set sub" by auto
  from Cons.prems fst_present [of jp j] have "set names \<inter> fst ` set (sub @ present jp j) = {}"
    by (auto simp: image_Un)
  with Cons.IH [of "sub @ present jp j"] Cons.prems(1)
  show ?case by (simp add: put_fresh [OF fresh])
qed

lemma four_arm_sub_present: "four_arm_sub jp = concat (map (present jp) whitelist)"
proof -
  have "four_arm_sub jp = fold (put jp) whitelist []"
    by (simp add: four_arm_sub_def whitelist_def)
  also have "\<dots> = [] @ concat (map (present jp) whitelist)"
    by (rule fold_put) (simp_all add: whitelist_def)
  finally show ?thesis by simp
qed

lemma set_concat_present:
  "set (concat (map (present jp) names)) = {(j, q). j \<in> set names \<and> map_of jp j = Some q}"
  by (auto simp: present_def split: option.splits)

lemma distinct_concat_present:
  "distinct names \<Longrightarrow> distinct (concat (map (present jp) names))"
proof (induction names)
  case Nil
  then show ?case by simp
next
  case (Cons j names)
  then have "set (present jp j) \<inter> set (concat (map (present jp) names)) = {}"
    unfolding set_concat_present by (auto simp: present_def split: option.splits)
  moreover have "distinct (present jp j)" by (simp add: present_def split: option.splits)
  ultimately show ?case using Cons by simp
qed

lemma mset_four_arm_sub:
  assumes "distinct (map fst jp)"
  shows "mset (four_arm_sub jp) = mset (whitelisted jp)"
proof -
  have d1: "distinct (four_arm_sub jp)"
    unfolding four_arm_sub_present by (rule distinct_concat_present) (simp add: whitelist_def)
  from assms have "distinct jp" by (rule distinct_map [THEN iffD1, THEN conjunct1])
  then have d2: "distinct (whitelisted jp)" by (simp add: whitelisted_def)
  from assms have "set (four_arm_sub jp) = set (whitelisted jp)"
    unfolding four_arm_sub_present set_concat_present whitelisted_def
    by auto
  with d1 d2 show ?thesis by (simp add: set_eq_iff_mset_eq_distinct)
qed

text \<open>
  C8. \<open>editFourArmJoints\<close> keeps of the updates the entries whose name is one of the
  six of \<open>whitelist\<close>. When none is left it returns at once, with no error and the
  editor unchanged, before any look at the frames, so also when no frame has the
  given name. Otherwise it is \<open>editJoints\<close> with strict = false on the entries kept, in
  the order the unordered map \<open>sub\<close> iterates over them. (The updates are a map: no
  name twice; an unordered map visits each of its entries once.)
\<close>

theorem editFourArmJoints_contract:
  assumes keys: "distinct (map fst jp)"
    and order: "\<forall>xs. mset (umap_order L xs) = mset xs"
  shows "\<exists>sub. mset sub = mset (whitelisted jp) \<and>
           editFourArmJoints L s step_name jp =
             (if whitelisted jp = [] then (None, s) else editJoints L s step_name sub False)"
proof -
  let ?sub = "umap_order L (four_arm_sub jp)"
  from order mset_four_arm_sub [OF keys] have m: "mset ?sub = mset (whitelisted jp)"
    by simp
  from mset_four_arm_sub [OF keys] have e: "four_arm_sub jp = [] \<longleftrightarrow> whitelisted jp = []"
    by (metis mset_zero_iff)
  have "editFourArmJoints L s step_name jp =
      (if whitelisted jp = [] then (None, s) else editJoints L s step_name ?sub False)"
    by (simp add: editFourArmJoints_def e)
  with m show ?thesis by blast
qed

theorem editFourArmJoints_contract_witness:
  "''nonexistent'' \<notin> name ` set (frames motion_editor) \<and>
   whitelisted [(''unrelated_joint'', 1)] = [] \<and>
   editFourArmJoints demo_lib motion_editor ''nonexistent'' [(''unrelated_joint'', 1)] =
     (None, motion_editor) \<and>
   whitelisted [(''unrelated_joint'', 1), (''rotate_0'', 1 / 4)] = [(''rotate_0'', 1 / 4)] \<and>
   editFourArmJoints demo_lib motion_editor ''f1'' [(''unrelated_joint'', 1), (''rotate_0'', 1 / 4)] =
     editJoints demo_lib motion_editor ''f1'' [(''rotate_0'', 1 / 4)] False \<and>
   editFourArmJoints demo_lib motion_editor ''nonexistent'' [(''unrelated_joint'', 1), (''rotate_0'', 1 / 4)] =
     (Some (StepNotFound ''nonexistent''), motion_editor)"
proof -
  have order: "\<forall>xs. mset (umap_order demo_lib xs) = mset xs"
    by (simp add: demo_lib_def)
  have w1: "whitelisted [(''unrelated_joint'', 1)] = []"
    by (simp add: whitelisted_def whitelist_def)
  have w2: "whitelisted [(''unrelated_joint'', 1), (''rotate_0'', 1 / 4)] = [(''rotate_0'', 1 / 4)]"
    by (simp add: whitelisted_def whitelist_def)
  have k1: "distinct (map fst [(''unrelated_joint'', 1::real)])" by simp
  have k2: "distinct (map fst [(''unrelated_joint'', 1::real), (''rotate_0'', 1 / 4)])" by simp
  have h: "''nonexistent'' \<notin> name ` set (frames motion_editor)"
    by (simp add: motion_editor_def frame_f1_def)
  from editFourArmJoints_contract [OF k1 order, of motion_editor "''nonexistent''"] w1
  have a: "editFourArmJoints demo_lib motion_editor ''nonexistent'' [(''unrelated_joint'', 1)] =
     (None, motion_editor)"
    by simp
  from editFourArmJoints_contract [OF k2 order, of motion_editor "''f1''"] w2
  have b: "editFourArmJoints demo_lib motion_editor ''f1'' [(''unrelated_joint'', 1), (''rotate_0'', 1 / 4)] =
     editJoints demo_lib motion_editor ''f1'' [(''rotate_0'', 1 / 4)] False"
    by auto
  from editFourArmJoints_contract [OF k2 order, of motion_editor "''nonexistent''"] w2
  have c: "editFourArmJoints demo_lib motion_editor ''nonexistent'' [(''unrelated_joint'', 1), (''rotate_0'', 1 / 4)] =
     (Some (StepNotFound ''nonexistent''), motion_editor)"
    by (auto simp: editJoints_def findFrameIndexByName_def find_from_absent [OF h])
  from h w1 w2 a b c show ?thesis by simp
qed


section \<open>Editing while the vector has room\<close>

text \<open>
  As long as no append reallocates the frame's vector (it has room for one more entry
  per update), every pointer in \<^verbatim>\<open>id2dxl\<close> stays valid, no write is lost, and \<open>editJoints\<close>
  is the edit of the specification, \<open>spec_edit\<close>: unresolved names are skipped or, when
  strict, end the call with the unknown-joint error after the pairs before them were
  applied; a resolved id that the frame has is overwritten at its last entry; a
  resolved id that it does not have is appended.
\<close>

lemma last_entry_same_ids: "map id_v ys = map id_v xs \<Longrightarrow> last_entry i ys = last_entry i xs"
proof (induction xs arbitrary: ys)
  case Nil
  then show ?case by simp
next
  case (Cons x xs)
  then obtain y ys' where "ys = y # ys'" "id_v y = id_v x" "map id_v ys' = map id_v xs"
    by (cases ys) auto
  with Cons.IH [of ys'] show ?case by simp
qed

lemma ids_overwrite: "map id_v (xs[k := (xs ! k)\<lparr>position := q\<rparr>]) = map id_v xs"
proof (cases "k < length xs")
  case True
  then have "(map id_v xs)[k := id_v (xs ! k)] = map id_v xs"
    by (simp add: list_update_same_conv)
  then show ?thesis by (simp add: map_update)
next
  case False
  then have "xs[k := (xs ! k)\<lparr>position := q\<rparr>] = xs"
    by (simp add: list_update_beyond)
  then show ?thesis by simp
qed

lemma last_entry_append:
  "last_entry i (xs @ [x]) = (if id_v x = i then Some (length xs) else last_entry i xs)"
  by (induction xs) (auto split: option.splits)

lemma index_dxl_last:
  "index_dxl n xs m i = (case last_entry i xs of Some k \<Rightarrow> Some (0, n + k) | None \<Rightarrow> m i)"
  by (induction xs arbitrary: n m) (auto split: option.splits)

lemma update_loop_with_room:
  assumes "length (elems v) + length upd \<le> capacity v"
    and "\<forall>i. m i = map_option (Pair b) (last_entry i (elems v))"
  shows "update_loop L j2i strict upd v b m lost =
           (fst (spec_edit j2i strict upd (elems v)),
            v\<lparr>elems := snd (spec_edit j2i strict upd (elems v))\<rparr>, lost)"
  using assms
proof (induction upd arbitrary: v m)
  case Nil
  then show ?case by simp
next
  case (Cons u rest)
  obtain jname qrad where u: "u = (jname, qrad)" by (cases u)
  show ?case
  proof (cases "j2i jname")
    case None
    show ?thesis
    proof (cases strict)
      case True
      with None u show ?thesis by simp
    next
      case False
      from Cons.prems have "length (elems v) + length rest \<le> capacity v" by simp
      from Cons.IH [OF this Cons.prems(2)] None False u show ?thesis by simp
    qed
  next
    case (Some i)
    show ?thesis
    proof (cases "last_entry i (elems v)")
      case None
      with Cons.prems(2) have mi: "m i = None" by simp
      from Cons.prems(1) have nr: "\<not> reallocates v" by (simp add: reallocates_def)
      let ?x = "\<lparr>id_v = i, position = qrad\<rparr>"
      let ?v = "v\<lparr>elems := elems v @ [?x]\<rparr>"
      from nr have pb: "push_back L v ?x = ?v" by (simp add: push_back_def)
      from Cons.prems(1) have room: "length (elems ?v) + length rest \<le> capacity ?v" by simp
      from Cons.prems(2) have inv: "\<forall>i'. (m(i \<mapsto> (b, length (elems v)))) i' =
          map_option (Pair b) (last_entry i' (elems ?v))"
        by (simp add: last_entry_append)
      have step: "update_loop L j2i strict (u # rest) v b m lost =
          update_loop L j2i strict rest ?v b (m(i \<mapsto> (b, length (elems v)))) lost"
        using \<open>j2i jname = Some i\<close> mi nr pb u by simp
      have spec: "spec_edit j2i strict (u # rest) (elems v) =
          spec_edit j2i strict rest (elems v @ [?x])"
        using \<open>j2i jname = Some i\<close> None u by simp
      from Cons.IH [of ?v "m(i \<mapsto> (b, length (elems v)))", OF room inv]
      have "update_loop L j2i strict rest ?v b (m(i \<mapsto> (b, length (elems v)))) lost =
          (fst (spec_edit j2i strict rest (elems ?v)),
           ?v\<lparr>elems := snd (spec_edit j2i strict rest (elems ?v))\<rparr>, lost)" .
      then show ?thesis unfolding step spec by simp
    next
      case (Some k)
      with Cons.prems(2) have mi: "m i = Some (b, k)" by simp
      let ?v = "v\<lparr>elems := (elems v)[k := (elems v ! k)\<lparr>position := qrad\<rparr>]\<rparr>"
      from Cons.prems(1) have room: "length (elems ?v) + length rest \<le> capacity ?v" by simp
      from Cons.prems(2) have inv: "\<forall>i'. m i' = map_option (Pair b) (last_entry i' (elems ?v))"
        by (simp add: last_entry_same_ids [OF ids_overwrite])
      have step: "update_loop L j2i strict (u # rest) v b m lost =
          update_loop L j2i strict rest ?v b m lost"
        using \<open>j2i jname = Some i\<close> mi u by simp
      have spec: "spec_edit j2i strict (u # rest) (elems v) =
          spec_edit j2i strict rest ((elems v)[k := (elems v ! k)\<lparr>position := qrad\<rparr>])"
        using \<open>j2i jname = Some i\<close> Some u by simp
      from Cons.IH [of ?v m, OF room inv] show ?thesis unfolding step spec by simp
    qed
  qed
qed

lemma editJoints_with_room:
  assumes "step_name \<in> name ` set (frames s)"
    and "f = frames s ! nat (findFrameIndexByName s step_name)"
    and "length (elems (dxl f)) + length upd \<le> capacity (dxl f)"
  shows "editJoints L s step_name upd strict =
           (fst (spec_edit (joint_to_id s) strict upd (elems (dxl f))),
            s\<lparr>frames := (frames s)[nat (findFrameIndexByName s step_name) :=
                 f\<lparr>dxl := (dxl f)\<lparr>elems := snd (spec_edit (joint_to_id s) strict upd (elems (dxl f)))\<rparr>\<rparr>]\<rparr>)"
    and "lost_writes L s step_name upd strict = []"
proof -
  from assms(1) have nn: "0 \<le> findFrameIndexByName s step_name"
    using find_from_present [of step_name "frames s" 0] by (simp add: findFrameIndexByName_def)
  have "\<forall>i. index_dxl 0 (elems (dxl f)) Map.empty i =
      map_option (Pair 0) (last_entry i (elems (dxl f)))"
    by (simp add: index_dxl_last split: option.splits)
  from update_loop_with_room [OF assms(3) this]
  have loop: "update_loop L (joint_to_id s) strict upd (dxl f) 0
        (index_dxl 0 (elems (dxl f)) Map.empty) [] =
      (fst (spec_edit (joint_to_id s) strict upd (elems (dxl f))),
       (dxl f)\<lparr>elems := snd (spec_edit (joint_to_id s) strict upd (elems (dxl f)))\<rparr>, [])" .
  from nn loop assms(2)
  show "editJoints L s step_name upd strict =
           (fst (spec_edit (joint_to_id s) strict upd (elems (dxl f))),
            s\<lparr>frames := (frames s)[nat (findFrameIndexByName s step_name) :=
                 f\<lparr>dxl := (dxl f)\<lparr>elems := snd (spec_edit (joint_to_id s) strict upd (elems (dxl f)))\<rparr>\<rparr>]\<rparr>)"
    by (simp add: editJoints_def Let_def)
  from nn loop assms(2) show "lost_writes L s step_name upd strict = []"
    by (simp add: lost_writes_def Let_def)
qed

section \<open>Editing after an append that reallocates\<close>

lemmas edit_simps = editJoints_def lost_writes_def findFrameIndexByName_def push_back_def
  reallocates_def new_MotionEditor_def new_MotionEditor_with_def default_joint_to_id_def

lemma twice_load: "loadFromFile demo_lib demo_files new_MotionEditor ''twice.yaml'' = (None, twice_editor)"
  by (simp add: editor_simps demo_simps twice_editor_def frame_f2_def)

text \<open>
  C5 at an input where the code does not do what the claim says. The frame \<open>f1\<close>, as
  loaded from \<open>motion.yaml\<close>, has the one joint \<open>{id: 0, position: 0.5}\<close> in a vector
  of capacity 1. The updates are visited as \<open>rotate_1\<close> (id 1, not in the frame), then
  \<open>rotate_0\<close> (id 0, in the frame). Appending the entry for id 1 reallocates the
  vector, which invalidates the pointer \<open>id2dxl\<close> holds for id 0, and only the pointer
  for id 1 is set anew; the write for \<open>rotate_0\<close> then goes through the stale pointer.
  The call returns with no exception, and the entry for id 0 of the frame is not
  overwritten: it keeps the position 0.5, and the write of 0.25 is lost.
\<close>

theorem editJoints_append_then_overwrite:
  "loadFromFile demo_lib demo_files new_MotionEditor ''motion.yaml'' = (None, motion_editor) \<and>
   editJoints demo_lib motion_editor ''f1'' [(''rotate_1'', 3 / 2), (''rotate_0'', 1 / 4)] False =
     (None,
      motion_editor\<lparr>frames :=
        [frame_f1\<lparr>dxl := \<lparr>elems = [\<lparr>id_v = 0, position = 1 / 2\<rparr>, \<lparr>id_v = 1, position = 3 / 2\<rparr>],
                          capacity = 2\<rparr>\<rparr>]\<rparr>) \<and>
   lost_writes demo_lib motion_editor ''f1'' [(''rotate_1'', 3 / 2), (''rotate_0'', 1 / 4)] False =
     [(0, 1 / 4)]"
  by (simp add: motion_load) (simp add: edit_simps motion_editor_def frame_f1_def demo_lib_def)

text \<open>
  C7 at an input where the code does not do what the claim says: the same frame and
  the same two updates, followed by a name the joint mapping does not have, with
  strict = false. The loop runs to its end: the unknown name is skipped and nothing
  is thrown, as the claim says, but of the two resolvable pairs only \<open>rotate_1\<close> is
  applied. The write for \<open>rotate_0\<close> is lost, where the edit of the specification
  leaves the frame with the position 0.25 for id 0.
\<close>

theorem editJoints_unknown_after_append:
  "editJoints demo_lib motion_editor ''f1''
     [(''rotate_1'', 3 / 2), (''rotate_0'', 1 / 4), (''totally_unknown_joint'', - 11 / 100)] False =
     (None,
      motion_editor\<lparr>frames :=
        [frame_f1\<lparr>dxl := \<lparr>elems = [\<lparr>id_v = 0, position = 1 / 2\<rparr>, \<lparr>id_v = 1, position = 3 / 2\<rparr>],
                          capacity = 2\<rparr>\<rparr>]\<rparr>) \<and>
   lost_writes demo_lib motion_editor ''f1''
     [(''rotate_1'', 3 / 2), (''rotate_0'', 1 / 4), (''totally_unknown_joint'', - 11 / 100)] False =
     [(0, 1 / 4)] \<and>
   spec_edit (joint_to_id motion_editor) False
     [(''rotate_1'', 3 / 2), (''rotate_0'', 1 / 4), (''totally_unknown_joint'', - 11 / 100)]
     (elems (dxl frame_f1)) =
     (None, [\<lparr>id_v = 0, position = 1 / 4\<rparr>, \<lparr>id_v = 1, position = 3 / 2\<rparr>])"
  by (simp add: edit_simps motion_editor_def frame_f1_def demo_lib_def)

text \<open>
  With strict = true the same call runs past the lost write to the unknown name and
  throws the unknown-joint error, the pairs before it having been processed.
\<close>

lemma editJoints_unknown_after_append_strict:
  "editJoints demo_lib motion_editor ''f1''
     [(''rotate_1'', 3 / 2), (''rotate_0'', 1 / 4), (''totally_unknown_joint'', - 11 / 100)] True =
     (Some (UnknownJointName ''totally_unknown_joint''),
      motion_editor\<lparr>frames :=
        [frame_f1\<lparr>dxl := \<lparr>elems = [\<lparr>id_v = 0, position = 1 / 2\<rparr>, \<lparr>id_v = 1, position = 3 / 2\<rparr>],
                          capacity = 2\<rparr>\<rparr>]\<rparr>)"
  by (simp add: edit_simps motion_editor_def frame_f1_def demo_lib_def)

text \<open>
  C10 at an input where the code does not do what the claim says. The frame \<open>f2\<close>, as
  loaded from \<open>twice.yaml\<close>, has two joints with id 0 in a vector of capacity 2. The
  updates are visited as \<open>rotate_1\<close> (id 1, appended, the vector reallocates), then
  \<open>rotate_0\<close>: the pointer \<open>id2dxl\<close> holds for id 0 is the one to the last entry with
  id 0, but into the old buffer. The call returns with no exception and no entry
  with id 0 is overwritten: the write of 1 is lost.
\<close>

theorem editJoints_duplicate_after_append:
  "loadFromFile demo_lib demo_files new_MotionEditor ''twice.yaml'' = (None, twice_editor) \<and>
   index_dxl 0 (elems (dxl frame_f2)) Map.empty 0 = Some (0, 1) \<and>
   editJoints demo_lib twice_editor ''f2'' [(''rotate_1'', 3 / 2), (''rotate_0'', 1)] False =
     (None,
      twice_editor\<lparr>frames :=
        [frame_f2\<lparr>dxl := \<lparr>elems = [\<lparr>id_v = 0, position = 1 / 4\<rparr>, \<lparr>id_v = 0, position = 1 / 2\<rparr>,
                                   \<lparr>id_v = 1, position = 3 / 2\<rparr>],
                          capacity = 4\<rparr>\<rparr>]\<rparr>) \<and>
   lost_writes demo_lib twice_editor ''f2'' [(''rotate_1'', 3 / 2), (''rotate_0'', 1)] False =
     [(0, 1)]"
  by (simp add: twice_load) (simp add: edit_simps twice_editor_def frame_f2_def demo_lib_def)

end
